theory Spec2Isabelle
  imports Complex_Main
begin

section \<open>Values of the program\<close>

text \<open>
  The downloader (\<^verbatim>\<open>fireflies_downloader.py\<close>) handles decoded JSON throughout: the body of
  an API response, a transcript record, the content of a saved file. A Python \<^verbatim>\<open>str\<close> is a
  sequence of code points, so a string is a list of naturals and \<open>str\<close> turns a literal
  into one. Python's \<^verbatim>\<open>None\<close> is the decoding of JSON \<^verbatim>\<open>null\<close>, so both are \<open>JNull\<close>. A JSON
  number without fraction or exponent decodes to an \<^verbatim>\<open>int\<close>, any other to a \<^verbatim>\<open>float\<close>; a finite
  float is a rational number (\<^verbatim>\<open>NaN\<close> and the infinities are left out).
\<close>

type_synonym pystr = "nat list"

definition str :: "string \<Rightarrow> pystr" where
  "str s = map of_char s"

datatype json =
    JNull
  | JBool bool
  | JNum int
  | JFloat rat
  | JStr pystr
  | JArr "json list"
  | JObj "(pystr \<times> json) list"

text \<open>The exceptions the code can meet. All but \<open>RequestException\<close> are outside what the
  two fetchers catch.\<close>

datatype error =
    KeyError
  | TypeError
  | ValueError
  | AttributeError
  | OverflowError
  | JSONDecodeError

fun and_then :: "error + 'a \<Rightarrow> ('a \<Rightarrow> error + 'b) \<Rightarrow> error + 'b" where
  "and_then (Inl e) f = Inl e"
| "and_then (Inr x) f = f x"

subsection \<open>Python's operators on decoded JSON\<close>

text \<open>\<^verbatim>\<open>bool(x)\<close>, as \<^verbatim>\<open>if x\<close> and \<^verbatim>\<open>not x\<close> use it.\<close>

fun py_truthy :: "json \<Rightarrow> bool" where
  "py_truthy JNull = False"
| "py_truthy (JBool b) = b"
| "py_truthy (JNum n) = (n \<noteq> 0)"
| "py_truthy (JFloat q) = (q \<noteq> 0)"
| "py_truthy (JStr s) = (s \<noteq> [])"
| "py_truthy (JArr xs) = (xs \<noteq> [])"
| "py_truthy (JObj kvs) = (kvs \<noteq> [])"

text \<open>\<^verbatim>\<open>x[k]\<close> with a string key \<open>k\<close>: a dict lookup, \<^verbatim>\<open>KeyError\<close> when the key is missing;
  every other value refuses a string subscript with \<^verbatim>\<open>TypeError\<close>.\<close>

fun py_getitem :: "json \<Rightarrow> pystr \<Rightarrow> error + json" where
  "py_getitem (JObj kvs) k = (case map_of kvs k of None \<Rightarrow> Inl KeyError | Some v \<Rightarrow> Inr v)"
| "py_getitem _ k = Inl TypeError"

fun str_contains :: "pystr \<Rightarrow> pystr \<Rightarrow> bool" where
  "str_contains sub [] = (sub = [])"
| "str_contains sub (c # cs) = (take (length sub) (c # cs) = sub \<or> str_contains sub cs)"

text \<open>\<^verbatim>\<open>k in x\<close> with a string \<open>k\<close>: a key of a dict, an element of a list, a substring of a
  string; \<^verbatim>\<open>TypeError\<close> on a value that is not a container.\<close>

fun py_contains :: "pystr \<Rightarrow> json \<Rightarrow> error + bool" where
  "py_contains k (JObj kvs) = Inr (k \<in> fst ` set kvs)"
| "py_contains k (JArr xs) = Inr (JStr k \<in> set xs)"
| "py_contains k (JStr s) = Inr (str_contains k s)"
| "py_contains k _ = Inl TypeError"

text \<open>\<^verbatim>\<open>len(x)\<close> and \<^verbatim>\<open>for item in x\<close>: a list gives its elements, a dict its keys, a string
  its characters (each a string of length one).\<close>

fun py_iter :: "json \<Rightarrow> error + json list" where
  "py_iter (JArr xs) = Inr xs"
| "py_iter (JObj kvs) = Inr (map (\<lambda>kv. JStr (fst kv)) kvs)"
| "py_iter (JStr s) = Inr (map (\<lambda>c. JStr [c]) s)"
| "py_iter _ = Inl TypeError"

text \<open>The members of a Python \<^verbatim>\<open>set\<close> are compared by \<^verbatim>\<open>==\<close> on hashable values:
  \<^verbatim>\<open>True == 1 == 1.0\<close>, strings equal strings only, \<^verbatim>\<open>None\<close> equals itself; a list or a
  dict is unhashable and raises \<^verbatim>\<open>TypeError\<close>. \<open>hkey\<close> maps a value to its class.\<close>

datatype key = KNone | KNumber rat | KStr pystr

fun hkey :: "json \<Rightarrow> error + key" where
  "hkey JNull = Inr KNone"
| "hkey (JBool b) = Inr (KNumber (if b then 1 else 0))"
| "hkey (JNum n) = Inr (KNumber (of_int n))"
| "hkey (JFloat q) = Inr (KNumber q)"
| "hkey (JStr s) = Inr (KStr s)"
| "hkey (JArr xs) = Inl TypeError"
| "hkey (JObj kvs) = Inl TypeError"

subsection \<open>The environment\<close>

text \<open>
  What the code takes from outside the repository is a parameter of the model:
  \<^item> \<open>uni_isalnum\<close>: \<^verbatim>\<open>str.isalnum\<close> on a code point above ASCII (the Unicode tables);
  \<^item> \<open>int_of_str\<close>: \<^verbatim>\<open>int(s)\<close> on a string, \<open>None\<close> where it raises \<^verbatim>\<open>ValueError\<close>;
  \<^item> \<open>tz_offset\<close>: the offset of local time, in microseconds, at an epoch time given in
    milliseconds (\<^verbatim>\<open>datetime.fromtimestamp\<close> returns naive local time);
  \<^item> \<open>now\<close>: what \<^verbatim>\<open>datetime.now()\<close> returns when the loop starts;
  \<^item> \<open>json_error_caught\<close>: whether the error \<^verbatim>\<open>response.json()\<close> raises on a body that is
    not JSON is a \<^verbatim>\<open>RequestException\<close> (it is from requests 2.27 on);
  \<^item> \<open>remote\<close>: the answer of the remote end to a request, which may depend on all that
    happened before.
\<close>

type_synonym datetime = int

datatype request =
    ListQuery int "pystr option"
  | DetailQuery json

datatype event =
    Sent request
  | Skipped json
  | Wrote pystr json

datatype http_result =
    Transport_failure
  | Response int "json option"

record env =
  uni_isalnum :: "nat \<Rightarrow> bool"
  int_of_str :: "pystr \<Rightarrow> int option"
  tz_offset :: "int \<Rightarrow> int"
  now :: datetime
  json_error_caught :: bool
  remote :: "event list \<Rightarrow> request \<Rightarrow> http_result"

subsection \<open>Dates\<close>

text \<open>
  A \<^verbatim>\<open>datetime\<close> is a naive local time, counted in microseconds from 1970-01-01T00:00:00.
  \<^verbatim>\<open>datetime\<close> covers the years 1 to 9999.
\<close>

definition dt_min :: datetime where
  "dt_min = - 62135596800000000"

definition dt_max :: datetime where
  "dt_max = 253402300799999999"

text \<open>\<^verbatim>\<open>int(x)\<close>: an int is itself, a bool is 0 or 1, a float is truncated towards zero, a
  string is parsed; \<^verbatim>\<open>None\<close>, a list and a dict raise \<^verbatim>\<open>TypeError\<close>.\<close>

fun py_int :: "env \<Rightarrow> json \<Rightarrow> error + int" where
  "py_int E (JNum n) = Inr n"
| "py_int E (JBool b) = Inr (if b then 1 else 0)"
| "py_int E (JFloat q) = Inr (if 0 \<le> q then \<lfloor>q\<rfloor> else \<lceil>q\<rceil>)"
| "py_int E (JStr s) = (case int_of_str E s of None \<Rightarrow> Inl ValueError | Some n \<Rightarrow> Inr n)"
| "py_int E _ = Inl TypeError"

text \<open>\<^verbatim>\<open>datetime.fromtimestamp(ms / 1000)\<close>. The quotient is a float, which carries every
  millisecond of a date before the year 2242 exactly; the model keeps them all. A time
  outside the range of \<^verbatim>\<open>datetime\<close> raises (\<^verbatim>\<open>OverflowError\<close>, \<^verbatim>\<open>OSError\<close> or \<^verbatim>\<open>ValueError\<close>,
  by platform: one constructor stands for the three).\<close>

definition fromtimestamp :: "env \<Rightarrow> int \<Rightarrow> error + datetime" where
  "fromtimestamp E ms =
     (let t = ms * 1000 + tz_offset E ms
      in if dt_min \<le> t \<and> t \<le> dt_max then Inr t else Inl OverflowError)"

text \<open>\<^verbatim>\<open>d - timedelta(seconds=1)\<close>, which raises below the first representable date.\<close>

definition minus_second :: "datetime \<Rightarrow> error + datetime" where
  "minus_second d = (if d - 1000000 < dt_min then Inl OverflowError else Inr (d - 1000000))"

text \<open>The calendar date of a day number (days since 1970-01-01), as year, month, day.\<close>

definition civil_from_days :: "int \<Rightarrow> int \<times> int \<times> int" where
  "civil_from_days z0 =
     (let z = z0 + 719468;
          era = z div 146097;
          doe = z mod 146097;
          yoe = (doe - doe div 1460 + doe div 36524 - doe div 146096) div 365;
          doy = doe - (365 * yoe + yoe div 4 - yoe div 100);
          mp = (5 * doy + 2) div 153;
          d = doy - (153 * mp + 2) div 5 + 1;
          m = (if mp < 10 then mp + 3 else mp - 9);
          y = yoe + era * 400 + (if m \<le> 2 then 1 else 0)
      in (y, m, d))"

definition digit :: "int \<Rightarrow> nat" where
  "digit n = 48 + nat (n mod 10)"

definition pad2 :: "int \<Rightarrow> pystr" where
  "pad2 n = [digit (n div 10), digit n]"

definition pad4 :: "int \<Rightarrow> pystr" where
  "pad4 n = [digit (n div 1000), digit (n div 100), digit (n div 10), digit n]"

text \<open>\<^verbatim>\<open>d.strftime('%Y-%m-%d')\<close>\<close>

definition strftime_date :: "datetime \<Rightarrow> pystr" where
  "strftime_date t =
     (case civil_from_days (t div 86400000000) of
        (y, m, d) \<Rightarrow> pad4 y @ str ''-'' @ pad2 m @ str ''-'' @ pad2 d)"

text \<open>\<^verbatim>\<open>d.strftime("%Y-%m-%dT%H:%M:%S.000Z")\<close>: the fraction of the second is not printed.\<close>

definition strftime_iso :: "datetime \<Rightarrow> pystr" where
  "strftime_iso t =
     (let s = (t div 1000000) mod 86400
      in strftime_date t @ str ''T'' @ pad2 (s div 3600) @ str '':'' @ pad2 (s div 60 mod 60)
         @ str '':'' @ pad2 (s mod 60) @ str ''.000Z'')"

section \<open>The file a transcript is saved in\<close>

text \<open>\<^verbatim>\<open>c.isalnum()\<close> on one character, and on a string (not empty, every character
  alphanumeric).\<close>

definition isalnum :: "env \<Rightarrow> nat \<Rightarrow> bool" where
  "isalnum E c =
     (if c < 128 then (48 \<le> c \<and> c \<le> 57) \<or> (65 \<le> c \<and> c \<le> 90) \<or> (97 \<le> c \<and> c \<le> 122)
      else uni_isalnum E c)"

definition str_isalnum :: "env \<Rightarrow> pystr \<Rightarrow> bool" where
  "str_isalnum E s = (s \<noteq> [] \<and> list_all (isalnum E) s)"

text \<open>The test of line 161: \<^verbatim>\<open>c.isalnum() or c in (' ', '-', '_', '.')\<close>.\<close>

definition kept :: "env \<Rightarrow> pystr \<Rightarrow> bool" where
  "kept E c = (str_isalnum E c \<or> c \<in> set [str '' '', str ''-'', str ''_'', str ''.''])"

text \<open>\<^verbatim>\<open>''.join(c for c in title if ...)\<close>: the items of the title that pass the test, in
  order. An item that is not a string has no \<^verbatim>\<open>isalnum\<close>.\<close>

fun join_kept :: "env \<Rightarrow> json list \<Rightarrow> error + pystr" where
  "join_kept E [] = Inr []"
| "join_kept E (JStr c # xs) =
     and_then (join_kept E xs) (\<lambda>rest. Inr (if kept E c then c @ rest else rest))"
| "join_kept E (_ # xs) = Inl AttributeError"

definition safe_title :: "env \<Rightarrow> json \<Rightarrow> error + pystr" where
  "safe_title E title = and_then (py_iter title) (join_kept E)"

text \<open>Line 160: the date of the object to save.\<close>

definition date_of :: "env \<Rightarrow> json \<Rightarrow> error + datetime" where
  "date_of E obj =
     and_then (py_getitem obj (str ''date'')) (\<lambda>dv.
     and_then (py_int E dv) (fromtimestamp E))"

text \<open>Lines 161 and 162: the name of the file.\<close>

definition filename_of :: "env \<Rightarrow> datetime \<Rightarrow> json \<Rightarrow> error + pystr" where
  "filename_of E date_obj obj =
     and_then (py_getitem obj (str ''title'')) (\<lambda>title.
     and_then (safe_title E title) (\<lambda>safe.
     Inr (strftime_date date_obj @ str ''_'' @ take 50 safe @ str ''.json'')))"

section \<open>The output directory\<close>

text \<open>
  The directory is the list of its files in the order \<^verbatim>\<open>os.listdir\<close> gives them. A file
  holds JSON, or something \<^verbatim>\<open>json.load\<close> fails on (\<open>Corrupt\<close>). What \<^verbatim>\<open>json.dump\<close> writes,
  \<^verbatim>\<open>json.load\<close> reads back unchanged.
\<close>

datatype content = Json json | Corrupt

type_synonym directory = "(pystr \<times> content) list"

text \<open>\<^verbatim>\<open>open(filepath, 'w')\<close> and \<^verbatim>\<open>json.dump\<close>: a file of that name is replaced, otherwise a
  new file appears.\<close>

fun write_file :: "directory \<Rightarrow> pystr \<Rightarrow> json \<Rightarrow> directory" where
  "write_file [] fn v = [(fn, Json v)]"
| "write_file ((n, c) # d) fn v =
     (if n = fn then (n, Json v) # d else (n, c) # write_file d fn v)"

definition endswith :: "pystr \<Rightarrow> pystr \<Rightarrow> bool" where
  "endswith s suf = (length suf \<le> length s \<and> drop (length s - length suf) s = suf)"

text \<open>Lines 124 to 129: what one file adds to \<^verbatim>\<open>existing_ids\<close>; every exception is
  swallowed by the bare \<^verbatim>\<open>except\<close>.\<close>

definition file_id :: "pystr \<times> content \<Rightarrow> key option" where
  "file_id f =
     (if endswith (fst f) (str ''.json'') then
        (case snd f of
           Corrupt \<Rightarrow> None
         | Json data \<Rightarrow>
             (case and_then (py_getitem data (str ''id'')) hkey of
                Inl e \<Rightarrow> None
              | Inr k \<Rightarrow> Some k))
      else None)"

text \<open>Lines 119 to 129 (\<^verbatim>\<open>existing_files\<close> is never read and is left out).\<close>

fun scan_ids :: "directory \<Rightarrow> key set \<Rightarrow> key set" where
  "scan_ids [] ids = ids"
| "scan_ids (f # d) ids =
     scan_ids d (case file_id f of None \<Rightarrow> ids | Some k \<Rightarrow> insert k ids)"

section \<open>The two fetchers\<close>

text \<open>The state of a run: the output directory, and the requests, skips and writes so
  far, in order.\<close>

record state =
  files :: directory
  events :: "event list"

definition sent :: "state \<Rightarrow> request \<Rightarrow> state" where
  "sent s req = s\<lparr>events := events s @ [Sent req]\<rparr>"

text \<open>\<^verbatim>\<open>get_transcript_content\<close>, lines 16 to 68. The result \<^verbatim>\<open>None\<close> is \<open>JNull\<close>.\<close>

definition get_transcript_content :: "env \<Rightarrow> state \<Rightarrow> json \<Rightarrow> error + json \<times> state" where
  "get_transcript_content E s transcript_id =
     (let req = DetailQuery transcript_id; s' = sent s req in
      case remote E (events s) req of
        Transport_failure \<Rightarrow> Inr (JNull, s')
      | Response status_code body \<Rightarrow>
          if status_code \<noteq> 200 then Inr (JNull, s')
          else (case body of
                  None \<Rightarrow> if json_error_caught E then Inr (JNull, s') else Inl JSONDecodeError
                | Some data \<Rightarrow>
                    and_then (py_contains (str ''errors'') data) (\<lambda>has_errors.
                    if has_errors then Inr (JNull, s')
                    else
                      and_then (py_getitem data (str ''data'')) (\<lambda>d.
                      and_then (py_getitem d (str ''transcript'')) (\<lambda>t.
                      Inr (t, s'))))))"

text \<open>The variables of the listing query, lines 87 to 90.\<close>

definition list_variables :: "int \<Rightarrow> datetime option \<Rightarrow> request" where
  "list_variables limit to_date = ListQuery (min limit 25) (map_option strftime_iso to_date)"

text \<open>\<^verbatim>\<open>get_transcripts\<close>, lines 70 to 109. The status code is not looked at.\<close>

definition get_transcripts :: "env \<Rightarrow> state \<Rightarrow> int \<Rightarrow> datetime option \<Rightarrow> error + json \<times> state" where
  "get_transcripts E s limit to_date =
     (let req = list_variables limit to_date; s' = sent s req in
      case remote E (events s) req of
        Transport_failure \<Rightarrow> Inr (JNull, s')
      | Response status_code body \<Rightarrow>
          (case body of
             None \<Rightarrow> if json_error_caught E then Inr (JNull, s') else Inl JSONDecodeError
           | Some data \<Rightarrow>
               and_then (py_contains (str ''errors'') data) (\<lambda>has_errors.
               Inr (if has_errors then JNull else data, s'))))"

section \<open>The backfill loop\<close>

text \<open>Lines 172 and 173.\<close>

definition track :: "datetime option \<Rightarrow> datetime \<Rightarrow> datetime option" where
  "track earliest_date date_obj =
     (case earliest_date of
        None \<Rightarrow> Some date_obj
      | Some e \<Rightarrow> if date_obj < e then Some date_obj else Some e)"

text \<open>The body of the \<^verbatim>\<open>for\<close> loop, lines 146 to 175, on one record of the page. Both
  branches print the title before anything else.\<close>

definition save_one ::
  "env \<Rightarrow> key set \<Rightarrow> json \<Rightarrow> datetime option \<times> state \<Rightarrow> error + datetime option \<times> state" where
  "save_one E existing_ids transcript es =
     and_then (py_getitem transcript (str ''id'')) (\<lambda>tid.
     and_then (hkey tid) (\<lambda>k.
     and_then (py_getitem transcript (str ''title'')) (\<lambda>shown.
     if k \<in> existing_ids then
       Inr (fst es, (snd es)\<lparr>events := events (snd es) @ [Skipped transcript]\<rparr>)
     else
       and_then (get_transcript_content E (snd es) tid) (\<lambda>cs.
       let obj = (if py_truthy (fst cs) then fst cs else transcript) in
       and_then (date_of E obj) (\<lambda>date_obj.
       and_then (filename_of E date_obj obj) (\<lambda>filename.
       Inr (track (fst es) date_obj,
            (snd cs)\<lparr>files := write_file (files (snd cs)) filename obj,
                     events := events (snd cs) @ [Wrote filename obj]\<rparr>)))))))"

fun save_page ::
  "env \<Rightarrow> key set \<Rightarrow> json list \<Rightarrow> datetime option \<times> state \<Rightarrow> error + datetime option \<times> state" where
  "save_page E existing_ids [] es = Inr es"
| "save_page E existing_ids (t # ts) es =
     and_then (save_one E existing_ids t es) (save_page E existing_ids ts)"

text \<open>Lines 134 to 143: the page of a listing result, or \<open>None\<close> where the code breaks out
  of the loop (no result, a key missing, an empty page). \<^verbatim>\<open>len\<close> and \<^verbatim>\<open>for\<close> need
  something to iterate over.\<close>

definition page_of :: "json \<Rightarrow> error + json list option" where
  "page_of result =
     (if \<not> py_truthy result then Inr None
      else
        and_then (py_contains (str ''data'') result) (\<lambda>has_data.
        if \<not> has_data then Inr None
        else
          and_then (py_getitem result (str ''data'')) (\<lambda>data.
          and_then (py_contains (str ''transcripts'') data) (\<lambda>has_transcripts.
          if \<not> has_transcripts then Inr None
          else
            and_then (py_getitem data (str ''transcripts'')) (\<lambda>transcripts.
            if \<not> py_truthy transcripts then Inr None
            else and_then (py_iter transcripts) (\<lambda>page. Inr (Some page)))))))"

text \<open>Lines 177 to 182: the next \<^verbatim>\<open>last_date\<close>, or \<open>None\<close> for \<^verbatim>\<open>break\<close>. A \<^verbatim>\<open>datetime\<close>
  is never false.\<close>

definition advance :: "datetime option \<Rightarrow> error + datetime option" where
  "advance earliest_date =
     (case earliest_date of
        None \<Rightarrow> Inr None
      | Some e \<Rightarrow> and_then (minus_second e) (\<lambda>d. Inr (Some d)))"

text \<open>The body of the \<^verbatim>\<open>while\<close> loop, lines 133 to 182. The result is the state and the
  next \<^verbatim>\<open>last_date\<close>, or \<open>None\<close> where the code breaks out of the loop.\<close>

definition save_step ::
  "env \<Rightarrow> key set \<Rightarrow> datetime \<Rightarrow> state \<Rightarrow> error + datetime option \<times> state" where
  "save_step E existing_ids last_date s =
     and_then (get_transcripts E s 25 (Some last_date)) (\<lambda>rs.
     and_then (page_of (fst rs)) (\<lambda>p.
     case p of
       None \<Rightarrow> Inr (None, snd rs)
     | Some page \<Rightarrow>
         and_then (save_page E existing_ids page (None, snd rs)) (\<lambda>es.
         and_then (advance (fst es)) (\<lambda>next. Inr (next, snd es)))))"

text \<open>The \<^verbatim>\<open>while True\<close> loop. Nothing bounds its iterations, so the model counts them
  down: \<open>None\<close> is a loop still running after \<open>fuel\<close> iterations.\<close>

fun save_loop :: "nat \<Rightarrow> env \<Rightarrow> key set \<Rightarrow> datetime \<Rightarrow> state \<Rightarrow> (error + state) option" where
  "save_loop 0 E existing_ids last_date s = None"
| "save_loop (Suc fuel) E existing_ids last_date s =
     (case save_step E existing_ids last_date s of
        Inl e \<Rightarrow> Some (Inl e)
      | Inr (None, s') \<Rightarrow> Some (Inr s')
      | Inr (Some d, s') \<Rightarrow> save_loop fuel E existing_ids d s')"

text \<open>\<^verbatim>\<open>save_transcripts\<close>, lines 111 to 182. A directory that does not exist is created
  empty.\<close>

definition save_transcripts ::
  "nat \<Rightarrow> env \<Rightarrow> directory option \<Rightarrow> datetime option \<Rightarrow> (error + state) option" where
  "save_transcripts fuel E output_dir to_date =
     (let d = (case output_dir of None \<Rightarrow> [] | Some d \<Rightarrow> d);
          existing_ids = scan_ids d {};
          last_date = (case to_date of None \<Rightarrow> now E | Some t \<Rightarrow> t)
      in save_loop fuel E existing_ids last_date \<lparr>files = d, events = []\<rparr>)"

section \<open>The entry point\<close>

text \<open>Lines 200 to 202: the date of one saved file.\<close>

definition file_date :: "env \<Rightarrow> content \<Rightarrow> error + datetime" where
  "file_date E c = (case c of Corrupt \<Rightarrow> Inl JSONDecodeError | Json data \<Rightarrow> date_of E data)"

text \<open>Lines 197 to 209. The \<^verbatim>\<open>try\<close> is around the whole \<^verbatim>\<open>for\<close> loop: the first exception
  ends the scan, a message is printed (the flag of the result), and \<^verbatim>\<open>earliest_date\<close>
  stays what it was.\<close>

fun scan_dates :: "env \<Rightarrow> directory \<Rightarrow> datetime option \<Rightarrow> datetime option \<times> bool" where
  "scan_dates E [] earliest_date = (earliest_date, False)"
| "scan_dates E (f # d) earliest_date =
     (if endswith (fst f) (str ''.json'') then
        (case file_date E (snd f) of
           Inl e \<Rightarrow> (earliest_date, True)
         | Inr date \<Rightarrow> scan_dates E d (track earliest_date date))
      else scan_dates E d earliest_date)"

definition resume_date :: "env \<Rightarrow> directory option \<Rightarrow> datetime option \<times> bool" where
  "resume_date E output_dir =
     (case output_dir of None \<Rightarrow> (None, False) | Some d \<Rightarrow> scan_dates E d None)"

text \<open>\<^verbatim>\<open>main\<close>, lines 184 to 212. Without a key nothing is done.\<close>

definition main ::
  "nat \<Rightarrow> env \<Rightarrow> pystr option \<Rightarrow> directory option \<Rightarrow> (error + state) option" where
  "main fuel E api_key output_dir =
     (if api_key = None \<or> api_key = Some [] then
        Some (Inr \<lparr>files = (case output_dir of None \<Rightarrow> [] | Some d \<Rightarrow> d), events = []\<rparr>)
      else save_transcripts fuel E output_dir (fst (resume_date E output_dir)))"

section \<open>Notions of the statements\<close>

text \<open>A record the loop skips: its \<^verbatim>\<open>id\<close> is hashable and in the set.\<close>

definition duplicate :: "key set \<Rightarrow> json \<Rightarrow> bool" where
  "duplicate ids t =
     (case and_then (py_getitem t (str ''id'')) hkey of Inl e \<Rightarrow> False | Inr k \<Rightarrow> k \<in> ids)"

text \<open>A record that can be announced: it has a \<^verbatim>\<open>title\<close>.\<close>

definition titled :: "json \<Rightarrow> bool" where
  "titled t = (case py_getitem t (str ''title'') of Inl e \<Rightarrow> False | Inr v \<Rightarrow> True)"

text \<open>The dates of the objects written, in the order of the writes.\<close>

fun written_dates :: "env \<Rightarrow> event list \<Rightarrow> datetime list" where
  "written_dates E [] = []"
| "written_dates E (Wrote fn obj # evs) =
     (case date_of E obj of Inl e \<Rightarrow> written_dates E evs | Inr d \<Rightarrow> d # written_dates E evs)"
| "written_dates E (ev # evs) = written_dates E evs"


fun is_listing :: "event \<Rightarrow> bool" where
  "is_listing (Sent (ListQuery n d)) = True"
| "is_listing ev = False"

text \<open>What the loop decided on the \<^verbatim>\<open>id\<close> behind an event: a skip is of a member of the
  set, a detail request is for an \<^verbatim>\<open>id\<close> outside it.\<close>

fun decided_by :: "key set \<Rightarrow> event \<Rightarrow> bool" where
  "decided_by ids (Skipped t) = duplicate ids t"
| "decided_by ids (Sent (DetailQuery tid)) =
     (case hkey tid of Inl e \<Rightarrow> False | Inr k \<Rightarrow> k \<notin> ids)"
| "decided_by ids ev = True"

text \<open>The page the listing query returns in a state, empty where there is none.\<close>

definition listed_page :: "env \<Rightarrow> state \<Rightarrow> datetime \<Rightarrow> json list" where
  "listed_page E s last_date =
     (case get_transcripts E s 25 (Some last_date) of
        Inl e \<Rightarrow> []
      | Inr rs \<Rightarrow> (case page_of (fst rs) of Inr (Some page) \<Rightarrow> page | _ \<Rightarrow> []))"

text \<open>The answers to a detail request after which \<^verbatim>\<open>get_transcript_content\<close> has no
  result: a transport failure, a status other than 200, an \<^verbatim>\<open>errors\<close> entry in the
  payload.\<close>

fun absent_detail :: "http_result \<Rightarrow> bool" where
  "absent_detail Transport_failure = True"
| "absent_detail (Response status_code body) =
     (status_code \<noteq> 200 \<or>
      (case body of
         None \<Rightarrow> False
       | Some data \<Rightarrow> py_contains (str ''errors'') data = Inr True))"

text \<open>The \<^verbatim>\<open>.json\<close> files of a directory whose date can be read, and their dates.\<close>

definition dated :: "env \<Rightarrow> pystr \<times> content \<Rightarrow> bool" where
  "dated E f =
     (if endswith (fst f) (str ''.json'') then
        (case file_date E (snd f) of Inl e \<Rightarrow> False | Inr d \<Rightarrow> True)
      else True)"

fun json_dates :: "env \<Rightarrow> directory \<Rightarrow> datetime list" where
  "json_dates E [] = []"
| "json_dates E (f # d) =
     (if endswith (fst f) (str ''.json'') then
        (case file_date E (snd f) of Inl e \<Rightarrow> json_dates E d | Inr t \<Rightarrow> t # json_dates E d)
      else json_dates E d)"

definition earliest_of :: "datetime list \<Rightarrow> datetime option" where
  "earliest_of ds = (if ds = [] then None else Some (Min (set ds)))"

section \<open>Examples\<close>

text \<open>An environment for the examples: local time is UTC, the text is ASCII, a string of
  decimal digits is an integer, and the remote end is given.\<close>

definition digits_int :: "pystr \<Rightarrow> int option" where
  "digits_int s =
     (if s \<noteq> [] \<and> list_all (\<lambda>c. 48 \<le> c \<and> c \<le> 57) s
      then Some (foldl (\<lambda>a c. 10 * a + (int c - 48)) 0 s)
      else None)"

definition utc_env :: "(event list \<Rightarrow> request \<Rightarrow> http_result) \<Rightarrow> env" where
  "utc_env r =
     \<lparr>uni_isalnum = (\<lambda>c. False), int_of_str = digits_int, tz_offset = (\<lambda>ms. 0),
      now = 1700000000000000, json_error_caught = True, remote = r\<rparr>"

definition summary :: "string \<Rightarrow> string \<Rightarrow> int \<Rightarrow> json" where
  "summary i t d =
     JObj [(str ''id'', JStr (str i)), (str ''title'', JStr (str t)), (str ''date'', JNum d)]"

definition envelope :: "json list \<Rightarrow> json" where
  "envelope page = JObj [(str ''data'', JObj [(str ''transcripts'', JArr page)])]"

definition listing :: "json list \<Rightarrow> http_result" where
  "listing page = Response 200 (Some (envelope page))"

definition detail :: "json \<Rightarrow> http_result" where
  "detail obj =
     Response 200 (Some (JObj [(str ''data'', JObj [(str ''transcript'', obj)])]))"

definition start :: "directory \<Rightarrow> state" where
  "start d = \<lparr>files = d, events = []\<rparr>"

text \<open>A remote end that cannot be reached.\<close>

definition no_answer :: "event list \<Rightarrow> request \<Rightarrow> http_result" where
  "no_answer h req = Transport_failure"

text \<open>Three records, the detail of the first, and a remote end that lists the first two
  up to now, the third before them and nothing before it; only the first has a detail.\<close>

definition rec_a :: json where
  "rec_a = summary ''a'' ''Plan'' 1600000000000"

definition rec_b :: json where
  "rec_b = summary ''b'' ''Review'' 1600000001000"

definition rec_c :: json where
  "rec_c = summary ''c'' ''Retro'' 1500000000000"

definition full_a :: json where
  "full_a =
     JObj [(str ''title'', JStr (str ''Plan'')), (str ''id'', JStr (str ''a'')),
           (str ''date'', JNum 1600000000000), (str ''sentences'', JArr [])]"

definition archive :: "event list \<Rightarrow> request \<Rightarrow> http_result" where
  "archive h req =
     (case req of
        ListQuery n d \<Rightarrow>
          if d = Some (str ''2023-11-14T22:13:20.000Z'') then listing [rec_a, rec_b]
          else if d = Some (str ''2020-09-13T12:26:39.000Z'') then listing [rec_c]
          else listing []
      | DetailQuery i \<Rightarrow>
          if i = JStr (str ''a'') then detail full_a else Response 404 None)"



text \<open>A remote end that lists the same record on the first page and on the second, and
  nothing after that.\<close>

definition repeating :: "event list \<Rightarrow> request \<Rightarrow> http_result" where
  "repeating h req =
     (case req of
        ListQuery n d \<Rightarrow> if length (filter is_listing h) < 2 then listing [rec_a] else listing []
      | DetailQuery i \<Rightarrow> Response 404 None)"

text \<open>A remote end whose record has no date, and one whose detail answer has status 200
  and an empty payload.\<close>

definition undated :: "event list \<Rightarrow> request \<Rightarrow> http_result" where
  "undated h req =
     (case req of
        ListQuery n d \<Rightarrow>
          listing [JObj [(str ''id'', JStr (str ''a'')), (str ''title'', JStr (str ''Plan''))]]
      | DetailQuery i \<Rightarrow> Response 404 None)"

definition hollow :: "event list \<Rightarrow> request \<Rightarrow> http_result" where
  "hollow h req =
     (case req of
        ListQuery n d \<Rightarrow> listing [rec_a]
      | DetailQuery i \<Rightarrow> Response 200 (Some (JObj [])))"

text \<open>The states of the examples. \<open>after_page1\<close> and \<open>after_run\<close>: the first page and the
  whole run of the loop over \<open>archive\<close>, from an empty directory; \<open>after_rerun\<close>: a second
  run over the directory of the first.\<close>

definition now_query :: event where
  "now_query = Sent (ListQuery 25 (Some (str ''2023-11-14T22:13:20.000Z'')))"


definition saved_dir :: directory where
  "saved_dir =
     [(str ''2020-09-13_Plan.json'', Json full_a),
      (str ''2020-09-13_Review.json'', Json rec_b),
      (str ''2017-07-14_Retro.json'', Json rec_c)]"


definition after_rerun :: state where
  "after_rerun = \<lparr>files = saved_dir, events = [now_query, Skipped rec_a, Skipped rec_b]\<rparr>"



text \<open>Over \<open>repeating\<close>: the first page and the second page.\<close>

definition repeat_page1 :: state where
  "repeat_page1 =
     \<lparr>files = [(str ''2020-09-13_Plan.json'', Json rec_a)],
      events = [now_query,
                Sent (DetailQuery (JStr (str ''a''))), Wrote (str ''2020-09-13_Plan.json'') rec_a]\<rparr>"

definition repeat_page2 :: state where
  "repeat_page2 =
     \<lparr>files = [(str ''2020-09-13_Plan.json'', Json rec_a)],
      events = events repeat_page1 @
               [Sent (ListQuery 25 (Some (str ''2020-09-13T12:26:39.000Z''))),
                Sent (DetailQuery (JStr (str ''a''))), Wrote (str ''2020-09-13_Plan.json'') rec_a]\<rparr>"

text \<open>The answers to a listing request after which the loop ends without a page: a
  transport failure, an \<^verbatim>\<open>errors\<close> entry in the payload, or a payload object without the
  \<^verbatim>\<open>data\<close> entry or whose \<^verbatim>\<open>data\<close> object has no \<^verbatim>\<open>transcripts\<close> entry.\<close>

fun ends_listing :: "http_result \<Rightarrow> bool" where
  "ends_listing Transport_failure = True"
| "ends_listing (Response status_code (Some (JObj kvs))) =
     (str ''errors'' \<in> fst ` set kvs \<or> str ''data'' \<notin> fst ` set kvs \<or>
      (case map_of kvs (str ''data'') of
         Some (JObj kvs') \<Rightarrow> str ''transcripts'' \<notin> fst ` set kvs'
       | _ \<Rightarrow> False))"
| "ends_listing r = False"

text \<open>A remote end whose record has a date that is not a number, and two directories
  with a file that cannot be parsed, before and after a good one.\<close>

definition worded :: "event list \<Rightarrow> request \<Rightarrow> http_result" where
  "worded h req =
     (case req of
        ListQuery n d \<Rightarrow>
          listing [JObj [(str ''id'', JStr (str ''a'')), (str ''title'', JStr (str ''Plan'')),
                         (str ''date'', JStr (str ''soon''))]]
      | DetailQuery i \<Rightarrow> Response 404 None)"

definition bad_first :: directory where
  "bad_first = [(str ''broken.json'', Corrupt), (str ''2020-09-13_Plan.json'', Json rec_a)]"

definition bad_last :: directory where
  "bad_last = [(str ''2020-09-13_Plan.json'', Json rec_a), (str ''broken.json'', Corrupt)]"

section \<open>Basic facts\<close>

lemma and_then_Inr_iff: "and_then r f = Inr y \<longleftrightarrow> (\<exists>x. r = Inr x \<and> f x = Inr y)"
  by (cases r) auto

lemma and_then_Inl_iff:
  "and_then r f = Inl e \<longleftrightarrow> r = Inl e \<or> (\<exists>x. r = Inr x \<and> f x = Inl e)"
  by (cases r) auto

lemma str_simps: "str [] = []" "str (c # cs) = of_char c # str cs"
  by (simp_all add: str_def)

lemma get_transcripts_events:
  "get_transcripts E s limit to_date = Inr (result, s') \<Longrightarrow>
   s' = sent s (list_variables limit to_date)"
  by (auto simp: get_transcripts_def Let_def and_then_Inr_iff
      split: http_result.splits option.splits if_splits)

section \<open>The page size\<close>

text \<open>
  C9. Whatever page size the caller asks for, the listing request that is sent carries
  the smaller of that size and 25: a size above 25 becomes 25, a size of at most 25 is
  sent as it is.
\<close>

theorem listing_limit_clamped:
  assumes "get_transcripts E s limit to_date = Inr (result, s')"
  shows "events s' =
         events s @ [Sent (ListQuery (if 25 < limit then 25 else limit)
                                     (map_option strftime_iso to_date))]"
  using get_transcripts_events [OF assms]
  by (simp add: sent_def list_variables_def min_def)

theorem listing_limit_clamped_witness:
  "get_transcripts (utc_env no_answer) (start []) 100 None
     = Inr (JNull, \<lparr>files = [], events = [Sent (ListQuery 25 None)]\<rparr>)
   \<and> events \<lparr>files = [], events = [Sent (ListQuery 25 None)]\<rparr>
     = events (start []) @ [Sent (ListQuery 25 None)]"
proof -
  have run: "get_transcripts (utc_env no_answer) (start []) 100 None
     = Inr (JNull, \<lparr>files = [], events = [Sent (ListQuery 25 None)]\<rparr>)"
    by code_simp
  from listing_limit_clamped [OF run] run show ?thesis by simp
qed

section \<open>The file name\<close>

lemma kept_char:
  "kept E [c] \<longleftrightarrow> isalnum E c \<or> c \<in> set (str '' -_.'')"
  by (auto simp: kept_def str_isalnum_def str_simps)

lemma join_kept_chars:
  "join_kept E (map (\<lambda>c. JStr [c]) s)
     = Inr (filter (\<lambda>c. isalnum E c \<or> c \<in> set (str '' -_.'')) s)"
  by (induction s) (simp_all add: kept_char)

lemma safe_title_JStr:
  "safe_title E (JStr s) = Inr (filter (\<lambda>c. isalnum E c \<or> c \<in> set (str '' -_.'')) s)"
  by (simp add: safe_title_def join_kept_chars)

text \<open>
  C3, as the code has it. Of a title that is a string the file name keeps the
  alphanumeric characters, spaces, hyphens, underscores and periods, in their order, and
  of these the first 50. The characters left out are dropped, not replaced: the title
  \<^verbatim>\<open>Q&A: Plan/Review?\<close> gives \<^verbatim>\<open>QA PlanReview\<close>.
\<close>

theorem safe_title_retains:
  assumes "py_getitem obj (str ''title'') = Inr (JStr s)"
  shows "filename_of E date_obj obj
           = Inr (strftime_date date_obj @ str ''_''
                  @ take 50 (filter (\<lambda>c. isalnum E c \<or> c \<in> set (str '' -_.'')) s)
                  @ str ''.json'')
         \<and> safe_title E (JStr (str ''Q&A: Plan/Review?'')) = Inr (str ''QA PlanReview'')"
proof -
  have "safe_title E (JStr (str ''Q&A: Plan/Review?'')) = Inr (str ''QA PlanReview'')"
    by (simp add: safe_title_JStr str_simps isalnum_def)
  with assms show ?thesis
    by (simp add: filename_of_def safe_title_JStr)
qed

theorem safe_title_retains_witness:
  "py_getitem (summary ''t1'' ''Q&A: Plan/Review?'' 1600000000000) (str ''title'')
     = Inr (JStr (str ''Q&A: Plan/Review?''))
   \<and> filename_of (utc_env no_answer) 1600000000000000
        (summary ''t1'' ''Q&A: Plan/Review?'' 1600000000000)
     = Inr (str ''2020-09-13_QA PlanReview.json'')"
proof -
  have t: "py_getitem (summary ''t1'' ''Q&A: Plan/Review?'' 1600000000000) (str ''title'')
     = Inr (JStr (str ''Q&A: Plan/Review?''))"
    by code_simp
  have v: "strftime_date 1600000000000000 @ str ''_''
             @ take 50 (filter (\<lambda>c. isalnum (utc_env no_answer) c \<or> c \<in> set (str '' -_.''))
                 (str ''Q&A: Plan/Review?''))
             @ str ''.json'' = str ''2020-09-13_QA PlanReview.json''"
    by code_simp
  from safe_title_retains [OF t, of "utc_env no_answer" 1600000000000000] t
  show ?thesis
    unfolding v by blast
qed

text \<open>
  C3, as the specification states it, fails: the result for \<^verbatim>\<open>Q&A: Plan/Review?\<close> is not
  \<^verbatim>\<open>QA Plan Review\<close>, since no space stands for the slash.
\<close>

theorem safe_title_example_counterexample:
  "safe_title (utc_env no_answer) (JStr (str ''Q&A: Plan/Review?'')) = Inr (str ''QA PlanReview'')
   \<and> str ''QA PlanReview'' \<noteq> str ''QA Plan Review''"
  by code_simp

section \<open>One record of a page\<close>

lemma get_transcript_content_state:
  "get_transcript_content E s tid = Inr (c, s1) \<Longrightarrow> s1 = sent s (DetailQuery tid)"
  by (auto simp: get_transcript_content_def Let_def and_then_Inr_iff
      split: http_result.splits option.splits if_splits)

lemma duplicate_iff:
  "duplicate ids t \<longleftrightarrow> (\<exists>tid k. py_getitem t (str ''id'') = Inr tid \<and> hkey tid = Inr k \<and> k \<in> ids)"
  by (auto simp: duplicate_def and_then_Inr_iff split: sum.splits)

lemma titled_iff: "titled t \<longleftrightarrow> (\<exists>v. py_getitem t (str ''title'') = Inr v)"
  by (auto simp: titled_def split: sum.splits)

lemma save_one_duplicate:
  assumes "duplicate ids t" and "titled t"
  shows "save_one E ids t (e, s) = Inr (e, s\<lparr>events := events s @ [Skipped t]\<rparr>)"
  using assms by (auto simp: duplicate_iff titled_iff save_one_def)

lemma save_one_fresh:
  assumes "save_one E ids t (e, s) = Inr (e', s')"
    and "py_getitem t (str ''id'') = Inr tid" and "hkey tid = Inr k" and "k \<notin> ids"
  shows "\<exists>c d fn. get_transcript_content E s tid = Inr (c, sent s (DetailQuery tid))
           \<and> date_of E (if py_truthy c then c else t) = Inr d
           \<and> filename_of E d (if py_truthy c then c else t) = Inr fn
           \<and> e' = track e d
           \<and> s' = \<lparr>files = write_file (files s) fn (if py_truthy c then c else t),
                    events = events s @ [Sent (DetailQuery tid), Wrote fn (if py_truthy c then c else t)]\<rparr>"
proof -
  from assms obtain c s1 d fn where
    c: "get_transcript_content E s tid = Inr (c, s1)" and
    d: "date_of E (if py_truthy c then c else t) = Inr d" and
    fn: "filename_of E d (if py_truthy c then c else t) = Inr fn" and
    e': "e' = track e d" and
    s': "s' = s1\<lparr>files := write_file (files s1) fn (if py_truthy c then c else t),
                  events := events s1 @ [Wrote fn (if py_truthy c then c else t)]\<rparr>"
    by (auto simp: save_one_def and_then_Inr_iff Let_def cong: if_cong)
  from c have s1: "s1 = sent s (DetailQuery tid)" by (rule get_transcript_content_state)
  show ?thesis using c d fn e' s' unfolding s1 by (auto simp: sent_def)
qed

lemma save_one_cases:
  assumes "save_one E ids t (e, s) = Inr (e', s')"
  shows "(duplicate ids t \<and> titled t \<and> e' = e \<and> s' = s\<lparr>events := events s @ [Skipped t]\<rparr>)
       \<or> (\<not> duplicate ids t \<and> (\<exists>tid k. py_getitem t (str ''id'') = Inr tid \<and> hkey tid = Inr k \<and> k \<notin> ids))"
  using assms
  by (auto simp: save_one_def and_then_Inr_iff duplicate_iff titled_iff split: if_splits)

section \<open>A page\<close>

lemma save_page_append:
  "save_page E ids (xs @ ys) es = and_then (save_page E ids xs es) (save_page E ids ys)"
proof (induction xs arbitrary: es)
  case Nil
  show ?case by simp
next
  case (Cons x xs)
  show ?case
    by (cases "save_one E ids x es") (simp_all add: Cons.IH)
qed

lemma save_page_duplicates:
  assumes "list_all (duplicate ids) page" and "list_all titled page"
  shows "save_page E ids page (e, s) = Inr (e, s\<lparr>events := events s @ map Skipped page\<rparr>)"
  using assms
proof (induction page arbitrary: s)
  case Nil
  show ?case by simp
next
  case (Cons t ts)
  then show ?case by (simp add: save_one_duplicate)
qed

lemma track_Some: "track (Some e) d = Some (min e d)"
  by (simp add: track_def min_def)

lemma foldl_track_Some: "foldl track (Some e) ds = Some (Min (set (e # ds)))"
proof (induction ds arbitrary: e)
  case Nil
  show ?case by simp
next
  case (Cons d ds)
  have "Min (insert (min e d) (set ds)) = Min (insert e (insert d (set ds)))"
    by (cases "ds = []") (simp_all add: min.assoc)
  then show ?case by (simp add: track_Some Cons.IH)
qed

lemma foldl_track_None: "foldl track None ds = earliest_of ds"
  by (cases ds) (simp_all add: earliest_of_def track_def foldl_track_Some)

lemma written_dates_append:
  "written_dates E (xs @ ys) = written_dates E xs @ written_dates E ys"
  by (induction E xs rule: written_dates.induct) (simp_all split: sum.splits)

lemma save_one_events:
  assumes "save_one E ids t (e, s) = Inr (e', s')"
  shows "\<exists>new. events s' = events s @ new \<and> list_all (decided_by ids) new
           \<and> \<not> list_ex is_listing new
           \<and> e' = foldl track e (written_dates E new)"
proof -
  from save_one_cases [OF assms] show ?thesis
  proof (elim disjE conjE exE)
    assume "duplicate ids t" "e' = e" "s' = s\<lparr>events := events s @ [Skipped t]\<rparr>"
    then show ?thesis by simp
  next
    fix tid k
    assume id: "py_getitem t (str ''id'') = Inr tid" "hkey tid = Inr k" "k \<notin> ids"
    from save_one_fresh [OF assms id] id(2,3) show ?thesis by auto
  qed
qed

lemma save_page_events:
  assumes "save_page E ids page (e, s) = Inr (e', s')"
  shows "\<exists>new. events s' = events s @ new \<and> list_all (decided_by ids) new
           \<and> \<not> list_ex is_listing new
           \<and> e' = foldl track e (written_dates E new)"
  using assms
proof (induction page arbitrary: e s)
  case Nil
  then show ?case by simp
next
  case (Cons t ts)
  from Cons.prems obtain e1 s1 where
    one: "save_one E ids t (e, s) = Inr (e1, s1)" and
    rest: "save_page E ids ts (e1, s1) = Inr (e', s')"
    by (auto simp: and_then_Inr_iff)
  from save_one_events [OF one] obtain n1 where
    n1: "events s1 = events s @ n1" "list_all (decided_by ids) n1" "\<not> list_ex is_listing n1"
        "e1 = foldl track e (written_dates E n1)"
    by blast
  from Cons.IH [OF rest] obtain n2 where
    n2: "events s' = events s1 @ n2" "list_all (decided_by ids) n2" "\<not> list_ex is_listing n2"
        "e' = foldl track e1 (written_dates E n2)"
    by blast
  have "events s' = events s @ (n1 @ n2)" using n1(1) n2(1) by simp
  moreover have "list_all (decided_by ids) (n1 @ n2)" using n1(2) n2(2) by simp
  moreover have "\<not> list_ex is_listing (n1 @ n2)" using n1(3) n2(3) by simp
  moreover have "e' = foldl track e (written_dates E (n1 @ n2))"
    using n1(4) n2(4) by (simp add: written_dates_append)
  ultimately show ?case by blast
qed

section \<open>A step of the loop and the loop\<close>

lemma advance_Inr:
  "advance e = Inr next \<Longrightarrow> next = map_option (\<lambda>t. t - 1000000) e"
  by (cases e) (auto simp: advance_def minus_second_def and_then_Inr_iff split: if_splits)

lemma save_step_cases:
  assumes "save_step E ids last_date s = Inr (next, s')"
  obtains (stop) result where
      "get_transcripts E s 25 (Some last_date) = Inr (result, sent s (list_variables 25 (Some last_date)))"
      "page_of result = Inr None" "next = None" "s' = sent s (list_variables 25 (Some last_date))"
  | (page) result page e where
      "get_transcripts E s 25 (Some last_date) = Inr (result, sent s (list_variables 25 (Some last_date)))"
      "page_of result = Inr (Some page)"
      "save_page E ids page (None, sent s (list_variables 25 (Some last_date))) = Inr (e, s')"
      "advance e = Inr next"
proof -
  from assms obtain result s1 p where
    g: "get_transcripts E s 25 (Some last_date) = Inr (result, s1)" and
    p: "page_of result = Inr p" and
    r: "(case p of None \<Rightarrow> Inr (None, s1)
         | Some page \<Rightarrow> and_then (save_page E ids page (None, s1))
                          (\<lambda>es. and_then (advance (fst es)) (\<lambda>next. Inr (next, snd es))))
        = Inr (next, s')"
    by (auto simp: save_step_def and_then_Inr_iff cong: option.case_cong)
  from g have s1: "s1 = sent s (list_variables 25 (Some last_date))"
    by (rule get_transcripts_events)
  show thesis
  proof (cases p)
    case None
    with g p r s1 show thesis by (intro stop [of result]) auto
  next
    case (Some pg)
    with r obtain e where
      "save_page E ids pg (None, s1) = Inr (e, s')" "advance e = Inr next"
      by (auto simp: and_then_Inr_iff)
    with g p s1 Some show thesis by (intro page [of result pg e]) auto
  qed
qed

lemma save_step_events:
  assumes "save_step E ids last_date s = Inr (next, s')"
  shows "\<exists>new. events s' = events s @ Sent (ListQuery 25 (Some (strftime_iso last_date))) # new
           \<and> list_all (decided_by ids) new \<and> \<not> list_ex is_listing new
           \<and> next = map_option (\<lambda>t. t - 1000000) (earliest_of (written_dates E new))"
  using assms
proof (cases rule: save_step_cases)
  case (stop result)
  then show ?thesis
    by (simp add: sent_def list_variables_def earliest_of_def)
next
  case (page result page e)
  from save_page_events [OF page(3)] obtain new where
    new: "events s' = events (sent s (list_variables 25 (Some last_date))) @ new"
      "list_all (decided_by ids) new" "\<not> list_ex is_listing new"
      "e = foldl track None (written_dates E new)"
    by blast
  from advance_Inr [OF page(4)] new(4)
  have "next = map_option (\<lambda>t. t - 1000000) (earliest_of (written_dates E new))"
    by (simp add: foldl_track_None)
  with new(1-3) show ?thesis
    by (simp add: sent_def list_variables_def)
qed



lemma save_loop_events:
  assumes "save_loop fuel E ids last_date s = Some (Inr s')"
  shows "\<exists>new. events s' = events s @ new \<and> list_all (decided_by ids) new"
  using assms
proof (induction fuel arbitrary: last_date s)
  case 0
  then show ?case by simp
next
  case (Suc fuel)
  from Suc.prems obtain nxt s1 where
    step: "save_step E ids last_date s = Inr (nxt, s1)" and
    rest: "(case nxt of None \<Rightarrow> Some (Inr s1) | Some d \<Rightarrow> save_loop fuel E ids d s1) = Some (Inr s')"
    by (auto split: sum.splits option.splits)
  from save_step_events [OF step] obtain n1 where
    n1: "events s1 = events s @ Sent (ListQuery 25 (Some (strftime_iso last_date))) # n1"
      "list_all (decided_by ids) n1"
    by blast
  show ?case
  proof (cases nxt)
    case None
    with rest n1 show ?thesis by auto
  next
    case (Some d)
    with rest have "save_loop fuel E ids d s1 = Some (Inr s')" by simp
    from Suc.IH [OF this] obtain n2 where
      "events s' = events s1 @ n2" "list_all (decided_by ids) n2" by blast
    with n1 show ?thesis by auto
  qed
qed

text \<open>
  C6, as the code has it. The set of existing ids is built once, from the directory as it
  is before the loop, and every page of the run is tested against that same set: each
  skip is of a record whose id is in it, each detail request is for an id outside it.
\<close>

theorem skip_test_against_startup_ids:
  assumes "save_transcripts fuel E (Some d) to_date = Some (Inr s')"
  shows "list_all (decided_by (scan_ids d {})) (events s')"
proof -
  from assms have
    "save_loop fuel E (scan_ids d {}) (case to_date of None \<Rightarrow> now E | Some t \<Rightarrow> t)
       \<lparr>files = d, events = []\<rparr> = Some (Inr s')"
    by (simp add: save_transcripts_def)
  from save_loop_events [OF this] show ?thesis by auto
qed

theorem skip_test_against_startup_ids_witness:
  "save_transcripts 5 (utc_env archive) (Some saved_dir) None = Some (Inr after_rerun)
   \<and> list_all (decided_by (scan_ids saved_dir {})) (events after_rerun)"
proof -
  have run: "save_transcripts 5 (utc_env archive) (Some saved_dir) None = Some (Inr after_rerun)"
    by code_simp
  from skip_test_against_startup_ids [OF run] run show ?thesis by blast
qed

text \<open>
  C6, as the specification states it, fails: the set is not rebuilt before each page. When
  the second page is processed the directory holds a file with the id of its record, and
  the record is fetched and written again, not skipped.
\<close>

theorem skip_test_rebuilt_counterexample:
  "save_step (utc_env repeating) (scan_ids [] {}) 1700000000000000 (start [])
     = Inr (Some 1599999999000000, repeat_page1)
   \<and> duplicate (scan_ids (files repeat_page1) {}) rec_a
   \<and> save_step (utc_env repeating) (scan_ids [] {}) 1599999999000000 repeat_page1
     = Inr (Some 1599999999000000, repeat_page2)
   \<and> Skipped rec_a \<notin> set (events repeat_page2)"
  by code_simp

lemma duplicate_page_step:
  assumes "get_transcripts E s 25 (Some last_date) = Inr (result, s1)"
    and "page_of result = Inr (Some page)"
    and "list_all (duplicate ids) page" and "list_all titled page"
  shows "save_step E ids last_date s = Inr (None, s1\<lparr>events := events s1 @ map Skipped page\<rparr>)"
  using assms by (simp add: save_step_def save_page_duplicates advance_def)

text \<open>
  C1, as the code has it. On a page whose records are all duplicates (each with a title to
  announce) no date is read: every record is skipped, the watermark is not advanced, and
  the loop ends with that page, having sent no further request.
\<close>

theorem duplicate_page_stops:
  assumes "get_transcripts E s 25 (Some last_date) = Inr (result, s1)"
    and "page_of result = Inr (Some page)"
    and "list_all (duplicate ids) page" and "list_all titled page"
  shows "save_step E ids last_date s = Inr (None, s1\<lparr>events := events s1 @ map Skipped page\<rparr>)
       \<and> save_loop (Suc fuel) E ids last_date s
           = Some (Inr (s1\<lparr>events := events s1 @ map Skipped page\<rparr>))
       \<and> events (s1\<lparr>events := events s1 @ map Skipped page\<rparr>)
           = events s @ Sent (ListQuery 25 (Some (strftime_iso last_date))) # map Skipped page"
  using duplicate_page_step [OF assms] get_transcripts_events [OF assms(1)]
  by (simp add: sent_def list_variables_def)

theorem duplicate_page_stops_witness:
  "get_transcripts (utc_env archive) (start saved_dir) 25 (Some 1700000000000000)
     = Inr (envelope [rec_a, rec_b], \<lparr>files = saved_dir, events = [now_query]\<rparr>)
   \<and> page_of (envelope [rec_a, rec_b]) = Inr (Some [rec_a, rec_b])
   \<and> list_all (duplicate (scan_ids saved_dir {})) [rec_a, rec_b]
   \<and> list_all titled [rec_a, rec_b]
   \<and> save_loop (Suc 4) (utc_env archive) (scan_ids saved_dir {}) 1700000000000000 (start saved_dir)
     = Some (Inr after_rerun)"
proof -
  have g: "get_transcripts (utc_env archive) (start saved_dir) 25 (Some 1700000000000000)
     = Inr (envelope [rec_a, rec_b], \<lparr>files = saved_dir, events = [now_query]\<rparr>)"
    by code_simp
  have p: "page_of (envelope [rec_a, rec_b]) = Inr (Some [rec_a, rec_b])"
    by code_simp
  have d: "list_all (duplicate (scan_ids saved_dir {})) [rec_a, rec_b]"
    by code_simp
  have t: "list_all titled [rec_a, rec_b]"
    by code_simp
  from duplicate_page_stops [OF g p d t, of 4] g p d t show ?thesis
    by (simp add: after_rerun_def)
qed

text \<open>
  C1, as the specification states it, fails: over the directory of a finished run, the
  first page holds duplicates only, each with a date that can be read, and the loop stops
  there. It sends one listing request and never asks for the page before these records.
\<close>

theorem duplicate_page_advances_counterexample:
  "list_all (duplicate (scan_ids saved_dir {})) [rec_a, rec_b]
   \<and> date_of (utc_env archive) rec_a = Inr 1600000000000000
   \<and> date_of (utc_env archive) rec_b = Inr 1600000001000000
   \<and> save_transcripts 5 (utc_env archive) (Some saved_dir) None
     = Some (Inr \<lparr>files = saved_dir, events = [now_query, Skipped rec_a, Skipped rec_b]\<rparr>)"
  by code_simp




end
